theory Spec2Isabelle
  imports Complex_Main "HOL-Library.AList"
begin

section \<open>JavaScript numbers\<close>

text \<open>
  The adapter computes with JavaScript numbers.  A number is modelled as a real, or one
  of the three special values the arithmetic of the program can produce: the two
  infinities and NaN.  Finite arithmetic is exact (the rounding error of IEEE doubles is
  not modelled), and there is one zero, read as \<open>+0\<close> where a sign is needed (every
  divisor of the program is an array length, the constant 100, a key count or a rounded
  statistic).
\<close>

datatype jsnum = Num real | PInf | NInf | NaN

fun js_add :: "jsnum \<Rightarrow> jsnum \<Rightarrow> jsnum" where
  "js_add NaN _ = NaN"
| "js_add _ NaN = NaN"
| "js_add PInf NInf = NaN"
| "js_add NInf PInf = NaN"
| "js_add PInf _ = PInf"
| "js_add _ PInf = PInf"
| "js_add NInf _ = NInf"
| "js_add _ NInf = NInf"
| "js_add (Num a) (Num b) = Num (a + b)"

fun js_sub :: "jsnum \<Rightarrow> jsnum \<Rightarrow> jsnum" where
  "js_sub NaN _ = NaN"
| "js_sub _ NaN = NaN"
| "js_sub PInf PInf = NaN"
| "js_sub NInf NInf = NaN"
| "js_sub PInf _ = PInf"
| "js_sub NInf _ = NInf"
| "js_sub _ PInf = NInf"
| "js_sub _ NInf = PInf"
| "js_sub (Num a) (Num b) = Num (a - b)"

fun js_mul :: "jsnum \<Rightarrow> jsnum \<Rightarrow> jsnum" where
  "js_mul NaN _ = NaN"
| "js_mul _ NaN = NaN"
| "js_mul PInf PInf = PInf"
| "js_mul PInf NInf = NInf"
| "js_mul NInf PInf = NInf"
| "js_mul NInf NInf = PInf"
| "js_mul PInf (Num b) = (if b = 0 then NaN else if 0 < b then PInf else NInf)"
| "js_mul NInf (Num b) = (if b = 0 then NaN else if 0 < b then NInf else PInf)"
| "js_mul (Num a) PInf = (if a = 0 then NaN else if 0 < a then PInf else NInf)"
| "js_mul (Num a) NInf = (if a = 0 then NaN else if 0 < a then NInf else PInf)"
| "js_mul (Num a) (Num b) = Num (a * b)"

fun js_div :: "jsnum \<Rightarrow> jsnum \<Rightarrow> jsnum" where
  "js_div NaN _ = NaN"
| "js_div _ NaN = NaN"
| "js_div PInf PInf = NaN"
| "js_div PInf NInf = NaN"
| "js_div NInf PInf = NaN"
| "js_div NInf NInf = NaN"
| "js_div PInf (Num b) = (if 0 \<le> b then PInf else NInf)"
| "js_div NInf (Num b) = (if 0 \<le> b then NInf else PInf)"
| "js_div (Num a) PInf = Num 0"
| "js_div (Num a) NInf = Num 0"
| "js_div (Num a) (Num b) =
     (if b \<noteq> 0 then Num (a / b)
      else if a = 0 then NaN else if 0 < a then PInf else NInf)"

text \<open>\<open>Math.sqrt\<close>, \<open>Math.round\<close> (nearest integer, a tie going up) and \<open>Math.max\<close>.\<close>

fun Math_sqrt :: "jsnum \<Rightarrow> jsnum" where
  "Math_sqrt (Num a) = (if a < 0 then NaN else Num (sqrt a))"
| "Math_sqrt PInf = PInf"
| "Math_sqrt NInf = NaN"
| "Math_sqrt NaN = NaN"


fun Math_max :: "jsnum \<Rightarrow> jsnum \<Rightarrow> jsnum" where
  "Math_max NaN _ = NaN"
| "Math_max _ NaN = NaN"
| "Math_max PInf _ = PInf"
| "Math_max _ PInf = PInf"
| "Math_max NInf y = y"
| "Math_max x NInf = x"
| "Math_max (Num a) (Num b) = Num (max a b)"



section \<open>Statistics\<close>

text \<open>
  \<open>calcMean\<close>: \<open>arr.reduce((partialSum, x) => partialSum + x, 0) / arr.length\<close>.
\<close>

definition calcMean :: "jsnum list \<Rightarrow> jsnum" where
  "calcMean arr = js_div (foldl js_add (Num 0) arr) (Num (real (length arr)))"

text \<open>\<open>calcStd\<close>: the square root of the mean of the squared differences from the mean.\<close>

definition calcStd :: "jsnum list \<Rightarrow> jsnum" where
  "calcStd arr =
     (let mean = calcMean arr;
          sqDiffs = map (\<lambda>v. let diff = js_sub v mean in js_mul diff diff) arr;
          avgSqDiff = calcMean sqDiffs
      in Math_sqrt avgSqDiff)"



section \<open>Summaries\<close>




section \<open>Values, messages and the adapter\<close>

text \<open>
  Message payloads, object definitions and state values are JSON-shaped values.  Arrays
  carry numbers, as the interface \<open>RequestedMonitoringEntry\<close> declares them; an object
  is a list of properties in insertion order.
\<close>

datatype payload =
    JUndefined
  | JNull
  | JBool bool
  | JNumber jsnum
  | JString string
  | JArray "jsnum list"
  | JObject "(string \<times> payload) list"

text \<open>\<open>typeof\<close>: \<open>null\<close> and arrays are of type \<open>object\<close>.\<close>

fun typeof :: "payload \<Rightarrow> string" where
  "typeof JUndefined = ''undefined''"
| "typeof JNull = ''object''"
| "typeof (JBool b) = ''boolean''"
| "typeof (JNumber n) = ''number''"
| "typeof (JString s) = ''string''"
| "typeof (JArray xs) = ''object''"
| "typeof (JObject kvs) = ''object''"

datatype error = TypeError | WorkloadError

text \<open>
  Reading a property \<open>v.p\<close>: a \<open>TypeError\<close> on \<open>null\<close> and \<open>undefined\<close>, the property's
  value on an object that has it, \<open>undefined\<close> otherwise (the properties read by the
  program are \<open>cmd\<close>, \<open>n\<close>, \<open>common\<close>, \<open>enabled\<close>, \<open>type\<close> and the four series
  names, none of which a primitive or an array provides).
\<close>

fun get_prop :: "payload \<Rightarrow> string \<Rightarrow> error + payload" where
  "get_prop JUndefined p = Inl TypeError"
| "get_prop JNull p = Inl TypeError"
| "get_prop (JObject kvs) p = Inr (case map_of kvs p of Some v \<Rightarrow> v | None \<Rightarrow> JUndefined)"
| "get_prop v p = Inr JUndefined"

text \<open>Optional chaining \<open>v?.p\<close>: \<open>undefined\<close> on \<open>null\<close> and \<open>undefined\<close>.\<close>

definition get_opt :: "payload \<Rightarrow> string \<Rightarrow> payload" where
  "get_opt v p = (case get_prop v p of Inl e \<Rightarrow> JUndefined | Inr w \<Rightarrow> w)"

text \<open>Assignment \<open>v.p = w\<close> on an object.\<close>

fun set_prop :: "payload \<Rightarrow> string \<Rightarrow> payload \<Rightarrow> payload" where
  "set_prop (JObject kvs) p w = JObject (AList.update p w kvs)"
| "set_prop v p w = v"

fun truthy :: "payload \<Rightarrow> bool" where
  "truthy JUndefined = False"
| "truthy JNull = False"
| "truthy (JBool b) = b"
| "truthy (JNumber n) = (n \<noteq> Num 0 \<and> n \<noteq> NaN)"
| "truthy (JString s) = (s \<noteq> [])"
| "truthy (JArray xs) = True"
| "truthy (JObject kvs) = True"

fun isArray :: "payload \<Rightarrow> bool" where
  "isArray (JArray xs) = True"
| "isArray v = False"

fun elements :: "payload \<Rightarrow> jsnum list" where
  "elements (JArray xs) = xs"
| "elements v = []"

text \<open>Decimal numerals, for \<open>i.toString()\<close> and the template \<open>`test.${i}`\<close>.\<close>

definition digit_char :: "nat \<Rightarrow> char" where
  "digit_char d = ''0123456789'' ! d"

function show_nat :: "nat \<Rightarrow> string" where
  "show_nat n = (if n < 10 then [digit_char n] else show_nat (n div 10) @ [digit_char (n mod 10)])"
  by pat_completeness auto
termination
  by (relation "measure (\<lambda>n. n)") auto

text \<open>
  \<open>process.hrtime()\<close> is a pair of seconds and nanoseconds; \<open>process.hrtime(start)\<close> is
  the difference to an earlier reading.  \<open>parseFloat(process.hrtime(start).join('.'))\<close>
  reads the text ``seconds.nanoseconds'' as a decimal fraction, the nanoseconds as
  they print.
\<close>

type_synonym hrtime = "nat \<times> nat"

definition hrtime_since :: "hrtime \<Rightarrow> hrtime \<Rightarrow> hrtime" where
  "hrtime_since now start =
     (if snd start \<le> snd now then (fst now - fst start, snd now - snd start)
      else (fst now - fst start - 1, snd now + 1000000000 - snd start))"

definition parseFloat_join :: "hrtime \<Rightarrow> jsnum" where
  "parseFloat_join t = Num (real (fst t) + real (snd t) / 10 ^ length (show_nat (snd t)))"

record Message =
  m_from :: string
  m_command :: string
  m_message :: payload
  m_callback :: payload

record Sent =
  s_to :: string
  s_command :: string
  s_message :: payload
  s_callback :: payload

record AdapterConfig =
  iterations :: jsnum
  epochs :: jsnum
  secondaryMode :: bool
  isolatedRun :: bool

record RequestedMonitoringEntry =
  rm_time :: "jsnum list"
  rm_cpuStats :: "jsnum list"
  rm_memStats :: "jsnum list"
  rm_eventLoopLags :: "jsnum list"

text \<open>
  The adapter: the fields of class \<open>Benchmark\<close>, its configuration and namespace, and
  the part of the host it acts on: the object database (identifier and definition, in
  the order of the database's listing), the state database (value and acknowledge
  flag), the messages it has sent, and the runs of \<open>runTests\<close> that the message handler
  has started without awaiting them (each with the keys of its \<open>selectedTests\<close>).
  Storage and messaging calls are taken to succeed.
\<close>

record Benchmark =
  activeTest :: string
  memStats :: "(string \<times> jsnum list) list"
  cpuStats :: "(string \<times> jsnum list) list"
  restartInstances :: "string list option"
  monitoringActive :: bool
  internalEventLoopLags :: "(string \<times> jsnum list) list"
  requestedMonitoring :: "(string \<times> RequestedMonitoringEntry) list"
  requestedMonitoringStartTime :: "hrtime option"
  config :: AdapterConfig
  namespace :: string
  objects :: "(string \<times> payload) list"
  states :: "string \<rightharpoonup> payload \<times> bool"
  sent :: "Sent list"
  started :: "string list list"

text \<open>The constructor.\<close>

definition Benchmark_new ::
  "AdapterConfig \<Rightarrow> string \<Rightarrow> (string \<times> payload) list \<Rightarrow> Benchmark" where
  "Benchmark_new cfg ns db =
     \<lparr> activeTest = ''none'', memStats = [], cpuStats = [], restartInstances = None,
       monitoringActive = False, internalEventLoopLags = [], requestedMonitoring = [],
       requestedMonitoringStartTime = None, config = cfg, namespace = ns,
       objects = db, states = Map.empty, sent = [], started = [] \<rparr>"

text \<open>The keys of \<open>allTests\<close>, in the order of the object literal.\<close>

definition allTests :: "string list" where
  "allTests = [''setStates'', ''statesSubscription'', ''statesDeletion'', ''idle'',
     ''objectsCreation'', ''setStatesNonStrict'']"

text \<open>
  A statement either completes or throws; a loop whose bound is \<open>Infinity\<close> does
  neither.  The state is the one reached when control leaves the statement.
\<close>

datatype outcome = Returned | Thrown error | Diverged

type_synonym stmt = "Benchmark \<Rightarrow> outcome \<times> Benchmark"

definition andThen :: "stmt \<Rightarrow> stmt \<Rightarrow> stmt" where
  "andThen f g st = (case f st of (Returned, st') \<Rightarrow> g st' | r \<Rightarrow> r)"


definition throw :: "error \<Rightarrow> stmt" where
  "throw e st = (Thrown e, st)"

section \<open>The message handler\<close>

text \<open>The host calls of the handler: the adapter prefixes its namespace to an identifier.\<close>

definition own_id :: "Benchmark \<Rightarrow> string \<Rightarrow> string" where
  "own_id st k = namespace st @ ''.'' @ k"

definition sendTo :: "string \<Rightarrow> string \<Rightarrow> payload \<Rightarrow> payload \<Rightarrow> stmt" where
  "sendTo target cmd msg cb st =
     (Returned, st\<lparr>sent := sent st @
        [\<lparr>s_to = target, s_command = cmd, s_message = msg, s_callback = cb\<rparr>]\<rparr>)"

definition setObject :: "string \<Rightarrow> payload \<Rightarrow> Benchmark \<Rightarrow> Benchmark" where
  "setObject k obj st = st\<lparr>objects := AList.update (own_id st k) obj (objects st)\<rparr>"

definition delObject :: "string \<Rightarrow> Benchmark \<Rightarrow> Benchmark" where
  "delObject k st = st\<lparr>objects := AList.delete (own_id st k) (objects st)\<rparr>"

definition setState :: "string \<Rightarrow> payload \<Rightarrow> bool \<Rightarrow> Benchmark \<Rightarrow> Benchmark" where
  "setState k val ack st = st\<lparr>states := (states st)(own_id st k \<mapsto> (val, ack))\<rparr>"

definition delState :: "string \<Rightarrow> Benchmark \<Rightarrow> Benchmark" where
  "delState k st = st\<lparr>states := (states st)(own_id st k := None)\<rparr>"

text \<open>\<open>for (let i = 0; i < n; i++) body\<close>, for a finite bound and for any number.\<close>

function for_lt :: "real \<Rightarrow> nat \<Rightarrow> (nat \<Rightarrow> 's \<Rightarrow> 's) \<Rightarrow> 's \<Rightarrow> 's" where
  "for_lt n i body st = (if real i < n then for_lt n (Suc i) body (body i st) else st)"
  by pat_completeness auto
termination
proof (relation "measure (\<lambda>(n, i, body, st). nat \<lceil>n\<rceil> - i)", goal_cases)
  case 1
  show ?case by simp
next
  case (2 n i body st)
  then have "int i < \<lceil>n\<rceil>" by linarith
  then show ?case by simp
qed

declare for_lt.simps [simp del]

fun for_i :: "jsnum \<Rightarrow> (nat \<Rightarrow> Benchmark \<Rightarrow> Benchmark) \<Rightarrow> stmt" where
  "for_i (Num n) body st = (Returned, for_lt n 0 body st)"
| "for_i PInf body st = (Diverged, st)"
| "for_i NInf body st = (Returned, st)"
| "for_i NaN body st = (Returned, st)"

fun num_of :: "payload \<Rightarrow> jsnum" where
  "num_of (JNumber x) = x"
| "num_of v = NaN"

definition test_id :: "nat \<Rightarrow> string" where
  "test_id i = ''test.'' @ show_nat i"

definition test_object :: "nat \<Rightarrow> payload" where
  "test_object i =
     JObject [(''type'', JString ''state''),
              (''common'', JObject [(''name'', JString (show_nat i)), (''read'', JBool True),
                 (''write'', JBool True), (''role'', JString ''state''),
                 (''type'', JString ''number'')]),
              (''native'', JObject [])]"

text \<open>Primary role, command \<open>requestedMonitoring\<close>: the sender's entry and the four merges.\<close>

definition initEntry :: "string \<Rightarrow> stmt" where
  "initEntry sender st =
     (if map_of (requestedMonitoring st) sender = None
      then (Returned, st\<lparr>requestedMonitoring := AList.update sender
              \<lparr>rm_time = [], rm_cpuStats = [], rm_memStats = [], rm_eventLoopLags = []\<rparr>
              (requestedMonitoring st)\<rparr>)
      else (Returned, st))"

definition mergeSeries ::
  "Message \<Rightarrow> string \<Rightarrow>
   ((jsnum list \<Rightarrow> jsnum list) \<Rightarrow> RequestedMonitoringEntry \<Rightarrow> RequestedMonitoringEntry) \<Rightarrow> stmt" where
  "mergeSeries obj field upd st =
     (if typeof (m_message obj) = ''object'' then
        (case get_prop (m_message obj) field of
           Inl e \<Rightarrow> (Thrown e, st)
         | Inr v \<Rightarrow>
             if isArray v
             then (Returned, st\<lparr>requestedMonitoring :=
                     AList.map_entry (m_from obj) (upd (\<lambda>old. old @ elements v))
                       (requestedMonitoring st)\<rparr>)
             else (Returned, st))
      else (Returned, st))"

definition receiveMonitoring :: "Message \<Rightarrow> stmt" where
  "receiveMonitoring obj =
     andThen (initEntry (m_from obj))
    (andThen (mergeSeries obj ''cpuStats'' rm_cpuStats_update)
    (andThen (mergeSeries obj ''memStats'' rm_memStats_update)
    (andThen (mergeSeries obj ''eventLoopLags'' rm_eventLoopLags_update)
             (mergeSeries obj ''time'' rm_time_update))))"

text \<open>Secondary role: the cases of the \<open>switch\<close>.\<close>

definition onObjects :: "Message \<Rightarrow> stmt" where
  "onObjects obj st =
     (if typeof (m_message obj) = ''object'' then
        (case get_prop (m_message obj) ''cmd'' of
           Inl e \<Rightarrow> (Thrown e, st)
         | Inr cmd \<Rightarrow>
             let n = get_opt (m_message obj) ''n'' in
             if cmd = JString ''set'' \<and> typeof n = ''number''
             then for_i (num_of n) (\<lambda>i. setObject (test_id i) (test_object i)) st
             else if cmd = JString ''del'' \<and> typeof n = ''number''
             then for_i (num_of n) (\<lambda>i. delObject (test_id i)) st
             else (Returned, st))
      else (Returned, st))"

definition onStates :: "Message \<Rightarrow> stmt" where
  "onStates obj st =
     (if typeof (m_message obj) = ''object'' then
        (case get_prop (m_message obj) ''cmd'' of
           Inl e \<Rightarrow> (Thrown e, st)
         | Inr cmd \<Rightarrow>
             let n = get_opt (m_message obj) ''n'' in
             if cmd = JString ''set'' \<and> typeof n = ''number''
             then for_i (num_of n) (\<lambda>i. setState (test_id i) (JNumber (Num (real i))) True) st
             else if cmd = JString ''del'' \<and> typeof n = ''number''
             then for_i (num_of n) (\<lambda>i. delState (test_id i)) st
             else (Returned, st))
      else (Returned, st))"

definition startMeasuring :: "hrtime \<Rightarrow> stmt" where
  "startMeasuring now st =
     (Returned, st\<lparr>activeTest := ''requestedMonitoring'',
        monitoringActive := True,
        cpuStats := AList.update ''requestedMonitoring'' [] (cpuStats st),
        memStats := AList.update ''requestedMonitoring'' [] (memStats st),
        internalEventLoopLags := AList.update ''requestedMonitoring'' [] (internalEventLoopLags st),
        requestedMonitoringStartTime := Some now\<rparr>)"

definition series_of :: "(string \<times> jsnum list) list \<Rightarrow> string \<Rightarrow> payload" where
  "series_of d k = (case map_of d k of Some xs \<Rightarrow> JArray xs | None \<Rightarrow> JUndefined)"

definition stopMeasuring :: "hrtime \<Rightarrow> stmt" where
  "stopMeasuring now st =
     (let st1 = st\<lparr>activeTest := ''none'', monitoringActive := False\<rparr>;
          st2 = (case requestedMonitoringStartTime st1 of
                   None \<Rightarrow> st1
                 | Some start \<Rightarrow>
                     st1\<lparr>sent := sent st1 @
                       [\<lparr>s_to = ''benchmark.0'', s_command = ''requestedMonitoring'',
                         s_message = JObject
                           [(''eventLoopLags'', series_of (internalEventLoopLags st1) ''requestedMonitoring''),
                            (''memStats'', series_of (memStats st1) ''requestedMonitoring''),
                            (''cpuStats'', series_of (cpuStats st1) ''requestedMonitoring''),
                            (''time'', JArray [parseFloat_join (hrtime_since now start)])],
                         s_callback = JUndefined\<rparr>]\<rparr>)
      in (Returned, st2\<lparr>
            internalEventLoopLags := AList.delete ''requestedMonitoring'' (internalEventLoopLags st2),
            memStats := AList.delete ''requestedMonitoring'' (memStats st2),
            cpuStats := AList.delete ''requestedMonitoring'' (cpuStats st2),
            requestedMonitoringStartTime := None\<rparr>))"

text \<open>
  \<open>onMessage\<close>: the dispatch on role and command, then the reply to the sender.  A run
  that the primary starts is recorded in \<open>started\<close>: the handler does not await it.
  \<open>now\<close> is the reading of \<open>process.hrtime()\<close> while the handler runs.
\<close>

definition dispatch :: "hrtime \<Rightarrow> Message \<Rightarrow> stmt" where
  "dispatch now obj st =
     (if \<not> secondaryMode (config st) then
        (if m_command obj = ''test''
         then (Returned, st\<lparr>started := started st @ [allTests]\<rparr>)
         else if m_command obj \<in> set allTests
         then (Returned, st\<lparr>started := started st @ [[m_command obj]]\<rparr>)
         else if m_command obj = ''requestedMonitoring''
         then receiveMonitoring obj st
         else (Returned, st))
      else
        (if m_command obj = ''objects'' then onObjects obj st
         else if m_command obj = ''states'' then onStates obj st
         else if m_command obj = ''startMeasuring'' then startMeasuring now st
         else if m_command obj = ''stopMeasuring'' then stopMeasuring now st
         else (Returned, st)))"

definition onMessage :: "hrtime \<Rightarrow> Message \<Rightarrow> stmt" where
  "onMessage now obj =
     andThen (dispatch now obj)
             (sendTo (m_from obj) (m_command obj) (JObject []) (m_callback obj))"

section \<open>The event-loop lag sampler\<close>

text \<open>
  The local function \<open>hrtime\<close> of \<open>measureEventLoopLag\<close> turns a reading of the clock
  into milliseconds, \<open>t[0] * 1e3 + t[1] / 1e6\<close>; \<open>millis\<close> is that number as a real.
\<close>

definition hrtime_ms :: "hrtime \<Rightarrow> jsnum" where
  "hrtime_ms t =
     js_add (js_mul (Num (real (fst t))) (Num 1000)) (js_div (Num (real (snd t))) (Num 1000000))"

definition millis :: "hrtime \<Rightarrow> real" where
  "millis t = real (fst t) * 1000 + real (snd t) / 1000000"

text \<open>
  \<open>check\<close>: one fire of the timer, given the reading of the clock at the fire, the flag
  \<open>monitoringActive\<close> at that moment and the variable \<open>start\<close>.  It yields the argument
  of the call of \<open>cb\<close>, the new value of \<open>start\<close>, and whether the timer is set again.
\<close>

definition check :: "jsnum \<Rightarrow> hrtime \<Rightarrow> bool \<Rightarrow> jsnum \<Rightarrow> jsnum \<times> jsnum \<times> bool" where
  "check ms clock active start =
     (let t = hrtime_ms clock
      in (Math_max (Num 0) (js_sub (js_sub t start) ms), t, active))"

text \<open>
  The fires of one sampler, each with its clock reading and the flag at that moment:
  the arguments \<open>cb\<close> is called with, in order.  The chain ends with the first fire that
  finds the flag false.
\<close>

fun fires :: "jsnum \<Rightarrow> jsnum \<Rightarrow> (hrtime \<times> bool) list \<Rightarrow> jsnum list" where
  "fires ms start [] = []"
| "fires ms start ((clock, active) # rest) =
     (case check ms clock active start of
        (lag, start', again) \<Rightarrow> lag # (if again then fires ms start' rest else []))"

text \<open>\<open>measureEventLoopLag(ms, cb)\<close>, created at the reading \<open>created\<close>.\<close>

definition measureEventLoopLag :: "jsnum \<Rightarrow> hrtime \<Rightarrow> (hrtime \<times> bool) list \<Rightarrow> jsnum list" where
  "measureEventLoopLag ms created evs = fires ms (hrtime_ms created) evs"

section \<open>The test scheduler\<close>

text \<open>
  What the surroundings of the scheduler do during one epoch of a workload: whether the
  three phases of the workload complete or throw, the value of
  \<open>process.hrtime(timeStart)\<close> when \<open>execute\<close> returns, the probes (\<open>stats.cpu\<close>,
  \<open>stats.memory\<close>) that \<open>monitorStats\<close> receives and the lags that the lag sampler
  reports while \<open>execute\<close> runs, what the workload and other clients do to the object
  database, and the messages that the handler receives during the epoch.  (A probe or a
  lag outside \<open>execute\<close> finds the marker \<open>none\<close> and is dropped.)
\<close>

record Epoch =
  prepare_ok :: bool
  execute_ok :: bool
  cleanUp_ok :: bool
  elapsed :: hrtime
  probes :: "(jsnum \<times> jsnum) list"
  lag_reports :: "jsnum list"
  edits :: "(string \<times> payload) list \<Rightarrow> (string \<times> payload) list"
  reports :: "Message list"











text \<open>The host calls of the scheduler on the object database.\<close>

definition setForeignObject :: "string \<Rightarrow> payload \<Rightarrow> Benchmark \<Rightarrow> Benchmark" where
  "setForeignObject k obj st = st\<lparr>objects := AList.update k obj (objects st)\<rparr>"

definition getForeignObject :: "Benchmark \<Rightarrow> string \<Rightarrow> payload" where
  "getForeignObject st k = (case map_of (objects st) k of Some obj \<Rightarrow> obj | None \<Rightarrow> JNull)"




definition own_instance :: "Benchmark \<Rightarrow> string" where
  "own_instance st = ''system.adapter.'' @ namespace st"

text \<open>\<open>v.common.enabled = b\<close>.\<close>

definition set_enabled :: "bool \<Rightarrow> payload \<Rightarrow> payload" where
  "set_enabled b v = set_prop v ''common'' (set_prop (get_opt v ''common'') ''enabled'' (JBool b))"

text \<open>Isolated run, before the tests: the body of the loop over the rows, and the loop.\<close>

definition stopInstance :: "string \<times> payload \<Rightarrow> Benchmark \<Rightarrow> Benchmark" where
  "stopInstance instance st =
     (if fst instance \<noteq> own_instance st
         \<and> truthy (get_opt (get_opt (snd instance) ''common'') ''enabled'')
      then (setForeignObject (fst instance) (set_enabled False (snd instance)) st)
             \<lparr>restartInstances := map_option (\<lambda>ids. ids @ [fst instance]) (restartInstances st)\<rparr>
      else st)"


text \<open>Isolated run, after the tests.\<close>

definition restartInstance :: "string \<Rightarrow> Benchmark \<Rightarrow> Benchmark" where
  "restartInstance k st =
     (let obj = getForeignObject st k
      in if truthy obj \<and> truthy (get_opt obj ''common'')
         then setForeignObject k (set_enabled True obj) st
         else st)"

definition restart :: "Benchmark \<Rightarrow> Benchmark" where
  "restart st =
     (if isolatedRun (config st)
      then (case restartInstances st of
              Some ids \<Rightarrow> fold restartInstance ids st
            | None \<Rightarrow> st)
      else st)"

















text \<open>The part of the adapter that the restoration after an isolated run reads.\<close>

definition isolation :: "Benchmark \<Rightarrow> string list option \<times> bool" where
  "isolation st = (restartInstances st, isolatedRun (config st))"

text \<open>
  The three sample dictionaries have an entry for a workload; the three phases of an
  epoch complete.
\<close>

definition accumulating :: "string \<Rightarrow> Benchmark \<Rightarrow> bool" where
  "accumulating k st =
     (map_of (cpuStats st) k \<noteq> None \<and> map_of (memStats st) k \<noteq> None
      \<and> map_of (internalEventLoopLags st) k \<noteq> None)"

definition completes :: "Epoch \<Rightarrow> bool" where
  "completes ep = (prepare_ok ep \<and> execute_ok ep \<and> cleanUp_ok ep)"

section \<open>Concrete configurations\<close>

text \<open>The default configuration, in the secondary and in the primary role.\<close>

definition secondary_cfg :: AdapterConfig where
  "secondary_cfg =
     \<lparr>iterations = Num 10000, epochs = Num 5, secondaryMode = True, isolatedRun = False\<rparr>"

definition primary_cfg :: AdapterConfig where
  "primary_cfg =
     \<lparr>iterations = Num 10000, epochs = Num 5, secondaryMode = False, isolatedRun = False\<rparr>"








section \<open>Properties of the statistics\<close>






text \<open>
  C8.  \<open>calcMean\<close> of the empty list is NaN: the sum is the initial value 0 and the
  length is 0, so the quotient is \<open>0 / 0\<close>.  \<open>calcStd\<close> of the empty list is the square
  root of that NaN, again NaN.  Both are total functions: they return a number on every
  list and have no failing branch.
\<close>

theorem calc_empty_NaN:
  "calcMean [] = NaN \<and> calcStd [] = NaN
   \<and> foldl js_add (Num 0) [] = Num 0 \<and> Num (real (length ([] :: jsnum list))) = Num 0
   \<and> js_div (Num 0) (Num 0) = NaN"
  by (simp add: calcMean_def calcStd_def)












section \<open>Properties of the message handler\<close>

text \<open>
  C7, at a failing input.  A message whose payload is \<open>null\<close> passes the guard
  \<open>typeof obj.message === 'object'\<close>; the read of \<open>obj.message.cmd\<close> (secondary role,
  command \<open>objects\<close>) or of \<open>obj.message.cpuStats\<close> (primary role, command
  \<open>requestedMonitoring\<close>) then throws a \<open>TypeError\<close>, the handler is left before its
  last statement, and no reply is sent.
\<close>

theorem onMessage_null_payload_no_ack:
  "onMessage (0, 0)
     \<lparr>m_from = ''system.adapter.admin.0'', m_command = ''objects'', m_message = JNull,
       m_callback = JUndefined\<rparr>
     (Benchmark_new secondary_cfg ''benchmark.1'' [])
   = (Thrown TypeError, Benchmark_new secondary_cfg ''benchmark.1'' [])
   \<and> sent (Benchmark_new secondary_cfg ''benchmark.1'' []) = []
   \<and> fst (onMessage (0, 0)
     \<lparr>m_from = ''system.adapter.benchmark.1'', m_command = ''requestedMonitoring'',
       m_message = JNull, m_callback = JUndefined\<rparr>
     (Benchmark_new primary_cfg ''benchmark.0'' [])) = Thrown TypeError
   \<and> sent (snd (onMessage (0, 0)
     \<lparr>m_from = ''system.adapter.benchmark.1'', m_command = ''requestedMonitoring'',
       m_message = JNull, m_callback = JUndefined\<rparr>
     (Benchmark_new primary_cfg ''benchmark.0'' []))) = []"
  by (simp add: onMessage_def dispatch_def onObjects_def andThen_def Benchmark_new_def
      secondary_cfg_def primary_cfg_def allTests_def receiveMonitoring_def initEntry_def
      mergeSeries_def)

text \<open>
  C10, at a failing input.  In the secondary role a \<open>states\<close> message with the payload
  \<open>null\<close> (a payload that is not an object) leaves the storage unchanged, but the
  handler throws on \<open>obj.message.cmd\<close> and the reply is not sent.
\<close>

theorem onMessage_states_null_no_ack:
  "onMessage (0, 0)
     \<lparr>m_from = ''system.adapter.admin.0'', m_command = ''states'', m_message = JNull,
       m_callback = JUndefined\<rparr>
     (Benchmark_new secondary_cfg ''benchmark.1'' [])
   = (Thrown TypeError, Benchmark_new secondary_cfg ''benchmark.1'' [])
   \<and> sent (Benchmark_new secondary_cfg ''benchmark.1'' []) = []"
  by (simp add: onMessage_def dispatch_def onStates_def andThen_def Benchmark_new_def
      secondary_cfg_def)

section \<open>Properties of the lag sampler\<close>

lemma hrtime_ms_millis: "hrtime_ms t = Num (millis t)"
  by (simp add: hrtime_ms_def millis_def)

lemma fires_nth:
  "k < length (fires (Num ms) (Num s) evs) \<Longrightarrow>
   fires (Num ms) (Num s) evs ! k =
     Num (max 0 (millis (fst (evs ! k)) - (if k = 0 then s else millis (fst (evs ! (k - 1)))) - ms))"
proof (induction evs arbitrary: s k)
  case Nil
  then show ?case by simp
next
  case (Cons ev evs)
  obtain clock active where ev: "ev = (clock, active)" by (cases ev)
  show ?case
  proof (cases k)
    case 0
    then show ?thesis by (simp add: ev check_def hrtime_ms_millis)
  next
    case (Suc j)
    with Cons.prems have active: active and j: "j < length (fires (Num ms) (Num (millis clock)) evs)"
      by (auto simp: ev check_def hrtime_ms_millis split: if_splits)
    from Cons.IH [OF j] show ?thesis
      using active Suc by (cases j) (simp_all add: ev check_def hrtime_ms_millis)
  qed
qed

lemma fires_length: "length (fires ms start evs) \<le> length evs"
  by (induction evs arbitrary: start) (auto simp: check_def Let_def)

text \<open>
  C5.  At the \<open>k\<close>-th fire of a sampler with target interval \<open>ms\<close> the callback is called
  with \<open>max(0, t - t' - ms)\<close>, where \<open>t\<close> is the reading of the clock at that fire and
  \<open>t'\<close> the reading at the previous fire, or at the creation of the sampler for the first
  fire; the reported lag is a number that is not negative.
\<close>

theorem lag_is_clamped_excess:
  "k < length (measureEventLoopLag (Num ms) created evs) \<Longrightarrow>
   measureEventLoopLag (Num ms) created evs ! k =
     Num (max 0 (millis (fst (evs ! k))
                 - millis (if k = 0 then created else fst (evs ! (k - 1))) - ms))
   \<and> (\<exists>lag. measureEventLoopLag (Num ms) created evs ! k = Num lag \<and> 0 \<le> lag)
   \<and> k < length evs"
proof -
  assume k: "k < length (measureEventLoopLag (Num ms) created evs)"
  then have "k < length (fires (Num ms) (Num (millis created)) evs)"
    by (simp add: measureEventLoopLag_def hrtime_ms_millis)
  from fires_nth [OF this]
  have eq: "measureEventLoopLag (Num ms) created evs ! k =
     Num (max 0 (millis (fst (evs ! k))
                 - millis (if k = 0 then created else fst (evs ! (k - 1))) - ms))"
    by (simp add: measureEventLoopLag_def hrtime_ms_millis)
  moreover have "k < length evs"
    using k fires_length [of "Num ms" "hrtime_ms created" evs]
    by (simp add: measureEventLoopLag_def)
  ultimately show ?thesis by simp
qed

text \<open>
  C5, witness: a sampler of 50 ms created at time 0 that fires at 60 ms and at 100 ms
  reports the lags 10 and 0 (the second fire came 40 ms after the first, earlier than
  the interval); the second fire finds the flag false and is the last.
\<close>

theorem lag_is_clamped_excess_witness:
  "measureEventLoopLag (Num 50) (0, 0)
     [((0, 60000000), True), ((0, 100000000), False), ((5, 0), True)] = [Num 10, Num 0]
   \<and> measureEventLoopLag (Num 50) (0, 0)
     [((0, 60000000), True), ((0, 100000000), False), ((5, 0), True)] ! 1
      = Num (max 0 (millis (0, 100000000) - millis (0, 60000000) - 50))"
proof -
  have v: "measureEventLoopLag (Num 50) (0, 0)
     [((0, 60000000), True), ((0, 100000000), False), ((5, 0), True)] = [Num 10, Num 0]"
    by (simp add: measureEventLoopLag_def check_def hrtime_ms_def)
  show ?thesis
    using lag_is_clamped_excess [of 1 50 "(0, 0)"
        "[((0, 60000000), True), ((0, 100000000), False), ((5, 0), True)]"]
    by (simp add: v)
qed

section \<open>Properties of the aggregation of remote reports\<close>
















lemma sendTo_config: "config (snd (sendTo a b c d st)) = config st"
  by (simp add: sendTo_def)











section \<open>Properties of the isolated run\<close>

lemma stopInstance_own: "own_instance (stopInstance row st) = own_instance st"
  by (simp add: stopInstance_def own_instance_def setForeignObject_def)

lemma fold_stopInstance_own: "own_instance (fold stopInstance rows st) = own_instance st"
  by (induction rows arbitrary: st) (simp_all add: stopInstance_own)












lemma restartInstance_isolation: "isolation (restartInstance i st) = isolation st"
  by (simp add: isolation_def restartInstance_def setForeignObject_def Let_def)

lemma fold_restartInstance_isolation: "isolation (fold restartInstance ids st) = isolation st"
  by (induction ids arbitrary: st) (simp_all add: restartInstance_isolation)


lemma restart_isolation: "isolation (restart st) = isolation st"
  by (simp add: restart_def fold_restartInstance_isolation split: option.splits)







































end
